theory Spec2Isabelle
  imports Main "HOL-Library.Word"
begin

unbundle bit_operations_syntax

section \<open>The album registry of GoApiLearning\<close>

text \<open>
  The repository holds two variants of one Go program: the full one (six handlers) and
  \<^verbatim>\<open>main.go\<close> (three handlers: \<^verbatim>\<open>getAlbums\<close>, \<^verbatim>\<open>getAlbumByID\<close>, \<^verbatim>\<open>postAlbums\<close>, textually
  the same as in the full variant). The handlers share one package-level slice
  \<^verbatim>\<open>albums\<close>. Here each handler is a function that takes what it reads from the
  \<^verbatim>\<open>gin.Context\<close> (the path parameter \<^verbatim>\<open>id\<close>, the outcome of \<^verbatim>\<open>BindJSON\<close>) and the current
  slice, and returns the response it writes together with the slice it leaves behind.
\<close>

subsection \<open>Data\<close>

text \<open>
  A \<^verbatim>\<open>float64\<close> is kept as its IEEE 754 binary64 bit pattern. The program only copies
  prices and compares one with the constant 0, so the bit pattern and the comparison
  are all that is needed. Go strings are byte sequences compared byte by byte, which is
  equality of \<^typ>\<open>string\<close>.
\<close>

type_synonym float64 = "64 word"

definition f64_isNaN :: "float64 \<Rightarrow> bool" where
  "f64_isNaN x = (0x7FF0000000000000 < (x AND 0x7FFFFFFFFFFFFFFF))"

text \<open>Go's \<^verbatim>\<open>==\<close> on \<^verbatim>\<open>float64\<close>: a NaN equals nothing, and the two zeros are equal.\<close>

definition f64_eq :: "float64 \<Rightarrow> float64 \<Rightarrow> bool" where
  "f64_eq x y =
     (\<not> f64_isNaN x \<and> \<not> f64_isNaN y \<and>
      (x = y \<or> (x AND 0x7FFFFFFFFFFFFFFF = 0 \<and> y AND 0x7FFFFFFFFFFFFFFF = 0)))"

record album =
  ID :: string
  Title :: string
  Artist :: string
  Price :: float64

text \<open>The bit patterns of the literals \<^verbatim>\<open>56.99\<close>, \<^verbatim>\<open>17.99\<close> and \<^verbatim>\<open>39.99\<close>.\<close>

definition albums :: "album list" where
  "albums =
     [\<lparr>ID = ''1'', Title = ''Blue Train'', Artist = ''John Coltrane'',
        Price = 0x404C7EB851EB851F\<rparr>,
      \<lparr>ID = ''2'', Title = ''Jeru'', Artist = ''Gerry Mulligan'',
        Price = 0x4031FD70A3D70A3D\<rparr>,
      \<lparr>ID = ''3'', Title = ''Sarah Vaughan and Clifford Brown'', Artist = ''Sarah Vaughan'',
        Price = 0x4043FEB851EB851F\<rparr>]"

subsection \<open>Responses\<close>

text \<open>
  \<^verbatim>\<open>gin.H\<close> is a JSON object, here a list of key and value. A handler that returns
  after a failed \<^verbatim>\<open>BindJSON\<close> writes nothing itself: \<open>Aborted\<close>.
\<close>

datatype body = JAlbum album | JAlbums "album list" | H "(string \<times> string) list"

datatype response = Aborted | IndentedJSON nat body

abbreviation StatusOK :: nat where "StatusOK \<equiv> 200"
abbreviation StatusCreated :: nat where "StatusCreated \<equiv> 201"
abbreviation StatusNotFound :: nat where "StatusNotFound \<equiv> 404"

subsection \<open>Handlers\<close>

definition getAlbums :: "album list \<Rightarrow> response \<times> album list" where
  "getAlbums as = (IndentedJSON StatusOK (JAlbums as), as)"

text \<open>\<^verbatim>\<open>postAlbums\<close>: the argument \<open>bound\<close> is what \<^verbatim>\<open>c.BindJSON(&newAlbum)\<close> decoded, or
  \<open>None\<close> when it returned an error.\<close>

definition postAlbums :: "album option \<Rightarrow> album list \<Rightarrow> response \<times> album list" where
  "postAlbums bound as =
     (case bound of
        None \<Rightarrow> (Aborted, as)
      | Some newAlbum \<Rightarrow> (IndentedJSON StatusCreated (JAlbum newAlbum), as @ [newAlbum]))"

text \<open>\<^verbatim>\<open>getAlbumByID\<close>: the loop \<^verbatim>\<open>for _, a := range albums\<close>, then the 404 after it.\<close>

fun getAlbumByID_range :: "string \<Rightarrow> album list \<Rightarrow> response" where
  "getAlbumByID_range id' [] =
     IndentedJSON StatusNotFound (H [(''message'', ''album not found'')])"
| "getAlbumByID_range id' (a # rest) =
     (if ID a = id' then IndentedJSON StatusOK (JAlbum a) else getAlbumByID_range id' rest)"

definition getAlbumByID :: "string \<Rightarrow> album list \<Rightarrow> response \<times> album list" where
  "getAlbumByID id' as = (getAlbumByID_range id' as, as)"

text \<open>
  The three mutating handlers loop with \<^verbatim>\<open>for i, a := range albums\<close>. Go evaluates the
  range expression once, so the loop runs over the pairs of index and element of the
  slice as it was on entry (\<^term>\<open>enumerate 0 as\<close>), while the body writes to the
  package-level slice, the last argument here. Every body returns right after its write.
\<close>

fun updateAlbum_range ::
  "string \<Rightarrow> album \<Rightarrow> (nat \<times> album) list \<Rightarrow> album list \<Rightarrow> response \<times> album list" where
  "updateAlbum_range id' updatedAlbum [] as =
     (IndentedJSON StatusNotFound (H [(''message'', ''album not found'')]), as)"
| "updateAlbum_range id' updatedAlbum ((i, a) # rest) as =
     (if ID a = id' then
        let as1 = (if Title updatedAlbum \<noteq> ''''
                   then as[i := (as ! i)\<lparr>Title := Title updatedAlbum\<rparr>] else as);
            as2 = (if Artist updatedAlbum \<noteq> ''''
                   then as1[i := (as1 ! i)\<lparr>Artist := Artist updatedAlbum\<rparr>] else as1);
            as3 = (if \<not> f64_eq (Price updatedAlbum) 0
                   then as2[i := (as2 ! i)\<lparr>Price := Price updatedAlbum\<rparr>] else as2)
        in (IndentedJSON StatusOK (JAlbum updatedAlbum), as3)
      else updateAlbum_range id' updatedAlbum rest as)"

definition updateAlbum ::
  "string \<Rightarrow> album option \<Rightarrow> album list \<Rightarrow> response \<times> album list" where
  "updateAlbum id' bound as =
     (case bound of
        None \<Rightarrow> (Aborted, as)
      | Some updatedAlbum \<Rightarrow> updateAlbum_range id' updatedAlbum (enumerate 0 as) as)"

fun overwriteAlbum_range ::
  "string \<Rightarrow> album \<Rightarrow> (nat \<times> album) list \<Rightarrow> album list \<Rightarrow> response \<times> album list" where
  "overwriteAlbum_range id' updatedAlbum [] as =
     (IndentedJSON StatusNotFound (H [(''message'', ''album not found'')]), as)"
| "overwriteAlbum_range id' updatedAlbum ((i, a) # rest) as =
     (if ID a = id' then (IndentedJSON StatusOK (JAlbum updatedAlbum), as[i := updatedAlbum])
      else overwriteAlbum_range id' updatedAlbum rest as)"

definition overwriteAlbum ::
  "string \<Rightarrow> album option \<Rightarrow> album list \<Rightarrow> response \<times> album list" where
  "overwriteAlbum id' bound as =
     (case bound of
        None \<Rightarrow> (Aborted, as)
      | Some updatedAlbum \<Rightarrow> overwriteAlbum_range id' updatedAlbum (enumerate 0 as) as)"

text \<open>\<^verbatim>\<open>append(albums[:i], albums[i+1:]...)\<close> is \<^term>\<open>take i as @ drop (i + 1) as\<close>; both
  slice expressions are in range because \<open>i\<close> is an index of the slice.\<close>

fun deleteAlbum_range ::
  "string \<Rightarrow> (nat \<times> album) list \<Rightarrow> album list \<Rightarrow> response \<times> album list" where
  "deleteAlbum_range id' [] as =
     (IndentedJSON StatusNotFound (H [(''message'', ''album not found'')]), as)"
| "deleteAlbum_range id' ((i, a) # rest) as =
     (if ID a = id'
      then (IndentedJSON StatusOK (H [(''message'', ''album deleted'')]),
            take i as @ drop (i + 1) as)
      else deleteAlbum_range id' rest as)"

definition deleteAlbum :: "string \<Rightarrow> album list \<Rightarrow> response \<times> album list" where
  "deleteAlbum id' as = deleteAlbum_range id' (enumerate 0 as) as"

section \<open>Auxiliary facts\<close>

subsection \<open>Comparing a price with zero\<close>

text \<open>The only bit patterns that Go's \<^verbatim>\<open>==\<close> identifies with the constant 0 are the two
  zeros, \<open>+0\<close> and \<open>-0\<close>.\<close>

lemma f64_abs_bits:
  "(0x7FFFFFFFFFFFFFFF :: 64 word) = mask 63"
  by (simp add: mask_eq_exp_minus_1)

lemma f64_zero_bits:
  fixes x :: float64
  assumes "x AND 0x7FFFFFFFFFFFFFFF = 0"
  shows "x = 0 \<or> x = 0x8000000000000000"
proof -
  from assms have "take_bit 63 x = 0" by (simp only: f64_abs_bits take_bit_eq_mask)
  then have "unat (take_bit 63 x) = 0" by simp
  then have "take_bit 63 (unat x) = 0" by (simp only: unsigned_take_bit_eq)
  then have "unat x mod 2 ^ 63 = 0" by (simp only: take_bit_eq_mod)
  then obtain k where k: "unat x = 2 ^ 63 * k" by (auto simp only: mod_eq_0_iff_dvd dvd_def)
  have "unat x < 2 ^ 64" using unsigned_less [of x] by simp
  then have "2 ^ 63 * k < (2 ^ 63 * 2 :: nat)" using k by (simp only: power_Suc2 [symmetric]) simp
  then have "k < 2" by (simp only: mult_less_cancel1)
  then have "k = 0 \<or> k = 1" by arith
  then have "unat x = 0 \<or> unat x = 2 ^ 63" using k by auto
  moreover have "unat (0x8000000000000000 :: 64 word) = 2 ^ 63" by simp
  ultimately have "unat x = unat (0 :: 64 word) \<or> unat x = unat (0x8000000000000000 :: 64 word)"
    by (simp only: unat_0)
  then show ?thesis
    by (simp only: word_unat_eq_iff [symmetric])
qed

lemma f64_eq_zero: "f64_eq x 0 \<longleftrightarrow> x = 0 \<or> x = 0x8000000000000000"
proof
  assume "f64_eq x 0"
  then have "x = 0 \<or> x AND 0x7FFFFFFFFFFFFFFF = 0" by (auto simp: f64_eq_def)
  then show "x = 0 \<or> x = 0x8000000000000000" using f64_zero_bits by blast
next
  assume "x = 0 \<or> x = 0x8000000000000000"
  then show "f64_eq x 0" by (auto simp: f64_eq_def f64_isNaN_def)
qed

subsection \<open>The range loops\<close>

text \<open>
  Each loop is characterised on a slice split at its first record with the requested id,
  \<open>pre @ a # post\<close> where no record of \<open>pre\<close> has the id and \<open>a\<close> has it, and on a
  slice without such a record. The loops over index and element are generalised over
  the start index \<open>n\<close> of the enumeration.
\<close>

lemma getAlbumByID_range_first:
  "\<forall>b\<in>set pre. ID b \<noteq> id' \<Longrightarrow> ID a = id' \<Longrightarrow>
   getAlbumByID_range id' (pre @ a # post) = IndentedJSON StatusOK (JAlbum a)"
  by (induction pre) auto

lemma getAlbumByID_range_none:
  "\<forall>b\<in>set as. ID b \<noteq> id' \<Longrightarrow>
   getAlbumByID_range id' as = IndentedJSON StatusNotFound (H [(''message'', ''album not found'')])"
  by (induction as) auto

lemma getAlbumByID_range_found:
  "\<exists>b\<in>set as. ID b = id' \<Longrightarrow> \<exists>a. getAlbumByID_range id' as = IndentedJSON StatusOK (JAlbum a)"
  by (induction as) auto

lemma overwriteAlbum_range_first:
  "\<forall>b\<in>set pre. ID b \<noteq> id' \<Longrightarrow> ID a = id' \<Longrightarrow>
   overwriteAlbum_range id' u (enumerate n (pre @ a # post)) as =
     (IndentedJSON StatusOK (JAlbum u), as[n + length pre := u])"
  by (induction pre arbitrary: n) auto

lemma overwriteAlbum_range_none:
  "\<forall>b\<in>set xs. ID b \<noteq> id' \<Longrightarrow>
   overwriteAlbum_range id' u (enumerate n xs) as =
     (IndentedJSON StatusNotFound (H [(''message'', ''album not found'')]), as)"
  by (induction xs arbitrary: n) auto

lemma deleteAlbum_range_first:
  "\<forall>b\<in>set pre. ID b \<noteq> id' \<Longrightarrow> ID a = id' \<Longrightarrow>
   deleteAlbum_range id' (enumerate n (pre @ a # post)) as =
     (IndentedJSON StatusOK (H [(''message'', ''album deleted'')]),
      take (n + length pre) as @ drop (n + length pre + 1) as)"
  by (induction pre arbitrary: n) auto

lemma deleteAlbum_range_none:
  "\<forall>b\<in>set xs. ID b \<noteq> id' \<Longrightarrow>
   deleteAlbum_range id' (enumerate n xs) as =
     (IndentedJSON StatusNotFound (H [(''message'', ''album not found'')]), as)"
  by (induction xs arbitrary: n) auto

lemma updateAlbum_range_first:
  "\<forall>b\<in>set pre. ID b \<noteq> id' \<Longrightarrow> ID a = id' \<Longrightarrow>
   updateAlbum_range id' u (enumerate n (pre @ a # post)) as =
     (IndentedJSON StatusOK (JAlbum u),
      (let i = n + length pre;
           as1 = (if Title u \<noteq> '''' then as[i := (as ! i)\<lparr>Title := Title u\<rparr>] else as);
           as2 = (if Artist u \<noteq> '''' then as1[i := (as1 ! i)\<lparr>Artist := Artist u\<rparr>] else as1)
       in (if \<not> f64_eq (Price u) 0 then as2[i := (as2 ! i)\<lparr>Price := Price u\<rparr>] else as2)))"
  by (induction pre arbitrary: n) (auto simp: Let_def)

lemma updateAlbum_range_none:
  "\<forall>b\<in>set xs. ID b \<noteq> id' \<Longrightarrow>
   updateAlbum_range id' u (enumerate n xs) as =
     (IndentedJSON StatusNotFound (H [(''message'', ''album not found'')]), as)"
  by (induction xs arbitrary: n) auto

subsection \<open>The handlers on a split registry\<close>

text \<open>Every registry that holds a record with the requested id splits at the first one.\<close>

lemma first_match_split:
  "\<exists>b\<in>set as. ID b = id' \<Longrightarrow>
   \<exists>pre a post. as = pre @ a # post \<and> (\<forall>b\<in>set pre. ID b \<noteq> id') \<and> ID a = id'"
proof -
  assume "\<exists>b\<in>set as. ID b = id'"
  then obtain pre a post where "as = pre @ a # post" "ID a = id'" "\<forall>b\<in>set pre. \<not> ID b = id'"
    using split_list_first_prop [of as "\<lambda>b. ID b = id'"] by blast
  then show ?thesis by blast
qed

lemma getAlbumByID_first:
  "\<forall>b\<in>set pre. ID b \<noteq> id' \<Longrightarrow> ID a = id' \<Longrightarrow>
   getAlbumByID id' (pre @ a # post) = (IndentedJSON StatusOK (JAlbum a), pre @ a # post)"
  by (simp add: getAlbumByID_def getAlbumByID_range_first)

lemma overwriteAlbum_first:
  "\<forall>b\<in>set pre. ID b \<noteq> id' \<Longrightarrow> ID a = id' \<Longrightarrow>
   overwriteAlbum id' (Some u) (pre @ a # post) =
     (IndentedJSON StatusOK (JAlbum u), pre @ u # post)"
  using overwriteAlbum_range_first [of pre id' a u 0 post "pre @ a # post"]
  by (simp add: overwriteAlbum_def)

lemma overwriteAlbum_none:
  "\<forall>b\<in>set as. ID b \<noteq> id' \<Longrightarrow>
   overwriteAlbum id' (Some u) as =
     (IndentedJSON StatusNotFound (H [(''message'', ''album not found'')]), as)"
  by (simp add: overwriteAlbum_def overwriteAlbum_range_none)

lemma deleteAlbum_first:
  "\<forall>b\<in>set pre. ID b \<noteq> id' \<Longrightarrow> ID a = id' \<Longrightarrow>
   deleteAlbum id' (pre @ a # post) =
     (IndentedJSON StatusOK (H [(''message'', ''album deleted'')]), pre @ post)"
  using deleteAlbum_range_first [of pre id' a 0 post "pre @ a # post"]
  by (simp add: deleteAlbum_def)

lemma deleteAlbum_none:
  "\<forall>b\<in>set as. ID b \<noteq> id' \<Longrightarrow>
   deleteAlbum id' as =
     (IndentedJSON StatusNotFound (H [(''message'', ''album not found'')]), as)"
  by (simp add: deleteAlbum_def deleteAlbum_range_none)

lemma updateAlbum_first:
  "\<forall>b\<in>set pre. ID b \<noteq> id' \<Longrightarrow> ID a = id' \<Longrightarrow>
   updateAlbum id' (Some u) (pre @ a # post) =
     (IndentedJSON StatusOK (JAlbum u),
      pre @ a\<lparr>Title := if Title u \<noteq> '''' then Title u else Title a,
               Artist := if Artist u \<noteq> '''' then Artist u else Artist a,
               Price := if \<not> f64_eq (Price u) 0 then Price u else Price a\<rparr> # post)"
  using updateAlbum_range_first [of pre id' a u 0 post "pre @ a # post"]
  by (simp add: updateAlbum_def Let_def)

lemma updateAlbum_none:
  "\<forall>b\<in>set as. ID b \<noteq> id' \<Longrightarrow>
   updateAlbum id' (Some u) as =
     (IndentedJSON StatusNotFound (H [(''message'', ''album not found'')]), as)"
  by (simp add: updateAlbum_def updateAlbum_range_none)

lemma nth_replace_middle:
  "j < length (pre @ a # post) \<Longrightarrow> j \<noteq> length pre \<Longrightarrow>
   (pre @ x # post) ! j = (pre @ a # post) ! j"
  by (simp add: nth_append nth_Cons')

lemma nth_remove_middle_before:
  "j < length pre \<Longrightarrow> (pre @ post) ! j = (pre @ a # post) ! j"
  by (simp add: nth_append)

lemma nth_remove_middle_after:
  "length pre \<le> j \<Longrightarrow> (pre @ post) ! j = (pre @ a # post) ! Suc j"
  by (simp add: nth_append Suc_diff_le)

section \<open>Properties\<close>

subsection \<open>Reading\<close>

text \<open>
  C1. \<^verbatim>\<open>getAlbumByID\<close> returns, with status 200, the first record in insertion order whose
  \<open>ID\<close> equals the requested id as a string (byte for byte, so case matters): on a
  registry \<open>pre @ a # post\<close> where no record of \<open>pre\<close> has the id and \<open>a\<close> has it, the
  answer is \<open>a\<close>. It answers 404 with the message \<open>album not found\<close> if and only if no
  stored record has the id. The registry is not changed.
\<close>

theorem getAlbumByID_first_match:
  "((\<forall>b\<in>set pre. ID b \<noteq> id') \<and> ID a = id' \<longrightarrow>
      getAlbumByID id' (pre @ a # post) = (IndentedJSON StatusOK (JAlbum a), pre @ a # post))
   \<and> (fst (getAlbumByID id' as) =
         IndentedJSON StatusNotFound (H [(''message'', ''album not found'')])
       \<longleftrightarrow> (\<forall>b\<in>set as. ID b \<noteq> id'))"
proof (intro conjI impI)
  assume "(\<forall>b\<in>set pre. ID b \<noteq> id') \<and> ID a = id'"
  then show "getAlbumByID id' (pre @ a # post) =
      (IndentedJSON StatusOK (JAlbum a), pre @ a # post)"
    by (simp add: getAlbumByID_first)
next
  show "fst (getAlbumByID id' as) =
         IndentedJSON StatusNotFound (H [(''message'', ''album not found'')])
       \<longleftrightarrow> (\<forall>b\<in>set as. ID b \<noteq> id')"
  proof
    assume nf: "fst (getAlbumByID id' as) =
         IndentedJSON StatusNotFound (H [(''message'', ''album not found'')])"
    show "\<forall>b\<in>set as. ID b \<noteq> id'"
    proof (rule ccontr)
      assume "\<not> (\<forall>b\<in>set as. ID b \<noteq> id')"
      then have "\<exists>b\<in>set as. ID b = id'" by blast
      then obtain a where "getAlbumByID_range id' as = IndentedJSON StatusOK (JAlbum a)"
        using getAlbumByID_range_found by blast
      with nf show False by (simp add: getAlbumByID_def)
    qed
  next
    assume "\<forall>b\<in>set as. ID b \<noteq> id'"
    then show "fst (getAlbumByID id' as) =
         IndentedJSON StatusNotFound (H [(''message'', ''album not found'')])"
      by (simp add: getAlbumByID_def getAlbumByID_range_none)
  qed
qed

theorem getAlbumByID_first_match_witness:
  "getAlbumByID ''2''
     ([\<lparr>ID = ''1'', Title = ''Blue Train'', Artist = ''John Coltrane'', Price = 0x404C7EB851EB851F\<rparr>]
      @ \<lparr>ID = ''2'', Title = ''Jeru'', Artist = ''Gerry Mulligan'', Price = 0x4031FD70A3D70A3D\<rparr>
      # [\<lparr>ID = ''2'', Title = ''Night Lights'', Artist = ''Gerry Mulligan'', Price = 0\<rparr>])
   = (IndentedJSON StatusOK
        (JAlbum \<lparr>ID = ''2'', Title = ''Jeru'', Artist = ''Gerry Mulligan'',
                 Price = 0x4031FD70A3D70A3D\<rparr>),
      [\<lparr>ID = ''1'', Title = ''Blue Train'', Artist = ''John Coltrane'', Price = 0x404C7EB851EB851F\<rparr>,
       \<lparr>ID = ''2'', Title = ''Jeru'', Artist = ''Gerry Mulligan'', Price = 0x4031FD70A3D70A3D\<rparr>,
       \<lparr>ID = ''2'', Title = ''Night Lights'', Artist = ''Gerry Mulligan'', Price = 0\<rparr>])
   \<and> fst (getAlbumByID ''nonexistent'' albums) =
         IndentedJSON StatusNotFound (H [(''message'', ''album not found'')])
   \<and> fst (getAlbumByID ''a'' [\<lparr>ID = ''A'', Title = ''x'', Artist = ''y'', Price = 0\<rparr>]) =
         IndentedJSON StatusNotFound (H [(''message'', ''album not found'')])"
  using getAlbumByID_first_match
          [of "[\<lparr>ID = ''1'', Title = ''Blue Train'', Artist = ''John Coltrane'', Price = 0x404C7EB851EB851F\<rparr>]"
              "''2''"
              "\<lparr>ID = ''2'', Title = ''Jeru'', Artist = ''Gerry Mulligan'', Price = 0x4031FD70A3D70A3D\<rparr>"
              "[\<lparr>ID = ''2'', Title = ''Night Lights'', Artist = ''Gerry Mulligan'', Price = 0\<rparr>]"
              "[]"]
        getAlbumByID_first_match
          [of "[]" "''nonexistent''" "\<lparr>ID = '''', Title = '''', Artist = '''', Price = 0\<rparr>" "[]"
              albums]
        getAlbumByID_first_match
          [of "[]" "''a''" "\<lparr>ID = ''a'', Title = ''x'', Artist = ''y'', Price = 0\<rparr>" "[]"
              "[\<lparr>ID = ''A'', Title = ''x'', Artist = ''y'', Price = 0\<rparr>]"]
  by (simp add: albums_def)

text \<open>
  C8. On the freshly seeded registry (the three records the program starts with),
  looking up id \<open>1\<close> succeeds with status 200 and returns the record with id \<open>1\<close>,
  whose title is \<open>Blue Train\<close>; the registry is left as it was.
\<close>

theorem getAlbumByID_seeded:
  "getAlbumByID ''1'' albums =
     (IndentedJSON StatusOK
        (JAlbum \<lparr>ID = ''1'', Title = ''Blue Train'', Artist = ''John Coltrane'',
                 Price = 0x404C7EB851EB851F\<rparr>), albums)"
  by (simp add: getAlbumByID_def albums_def)

subsection \<open>Creating\<close>

text \<open>
  C2. \<^verbatim>\<open>postAlbums\<close> with a decoded record \<open>r\<close> always answers 201 with \<open>r\<close> itself and
  leaves the registry \<open>as @ [r]\<close>: one record longer, the old records unchanged in value
  and order in front, \<open>r\<close> last. Nothing is checked against the stored ids; the number of
  stored records with the id of \<open>r\<close> grows by one whatever it was, so records with the
  same id coexist.
\<close>

theorem postAlbums_appends:
  "postAlbums (Some r) as = (IndentedJSON StatusCreated (JAlbum r), as @ [r])
   \<and> length (snd (postAlbums (Some r) as)) = Suc (length as)
   \<and> take (length as) (snd (postAlbums (Some r) as)) = as
   \<and> length (filter (\<lambda>a. ID a = ID r) (snd (postAlbums (Some r) as))) =
       Suc (length (filter (\<lambda>a. ID a = ID r) as))"
  by (simp add: postAlbums_def)

text \<open>
  C3, as stated (creating a record and then looking its id up returns the submitted
  record, for every registry), fails: on the seeded registry, after a record with id
  \<open>1\<close> is created, looking up \<open>1\<close> does not return it (the scan stops at the seeded
  record \<open>Blue Train\<close>, which comes first).
\<close>

theorem create_then_get_counterexample:
  "fst (getAlbumByID ''1''
          (snd (postAlbums
             (Some \<lparr>ID = ''1'', Title = ''The Modern Sound of Betty Carter'',
                     Artist = ''Betty Carter'', Price = 0x4048FEB851EB851F\<rparr>) albums)))
   \<noteq> IndentedJSON StatusOK
        (JAlbum \<lparr>ID = ''1'', Title = ''The Modern Sound of Betty Carter'',
                 Artist = ''Betty Carter'', Price = 0x4048FEB851EB851F\<rparr>)"
  by (simp add: getAlbumByID_def postAlbums_def albums_def)

text \<open>
  C3, amended. For every registry in which no stored record has the id of the
  submitted record, \<^verbatim>\<open>postAlbums\<close> followed by \<^verbatim>\<open>getAlbumByID\<close> with that id answers 200
  with a record equal to the one submitted.
\<close>

theorem create_then_get_fresh_id:
  "\<forall>a\<in>set as. ID a \<noteq> ID r \<Longrightarrow>
   getAlbumByID (ID r) (snd (postAlbums (Some r) as)) =
     (IndentedJSON StatusOK (JAlbum r), as @ [r])"
  using getAlbumByID_first [of as "ID r" r "[]"] by (simp add: postAlbums_def)

theorem create_then_get_fresh_id_witness:
  "getAlbumByID ''4''
     (snd (postAlbums
        (Some \<lparr>ID = ''4'', Title = ''The Modern Sound of Betty Carter'',
                Artist = ''Betty Carter'', Price = 0x4048FEB851EB851F\<rparr>) albums)) =
   (IndentedJSON StatusOK
      (JAlbum \<lparr>ID = ''4'', Title = ''The Modern Sound of Betty Carter'',
               Artist = ''Betty Carter'', Price = 0x4048FEB851EB851F\<rparr>),
    albums @ [\<lparr>ID = ''4'', Title = ''The Modern Sound of Betty Carter'',
                Artist = ''Betty Carter'', Price = 0x4048FEB851EB851F\<rparr>])"
proof -
  have fresh: "\<forall>a\<in>set albums. ID a \<noteq>
      ID \<lparr>ID = ''4'', Title = ''The Modern Sound of Betty Carter'',
           Artist = ''Betty Carter'', Price = 0x4048FEB851EB851F\<rparr>"
    by (simp add: albums_def)
  show ?thesis using create_then_get_fresh_id [OF fresh] by simp
qed

subsection \<open>Deleting\<close>

text \<open>
  C4. On a registry \<open>pre @ a # post\<close> whose first record with the requested id is \<open>a\<close>,
  \<^verbatim>\<open>deleteAlbum\<close> answers 200 and leaves \<open>pre @ post\<close>: exactly the first match is
  removed, the count drops by one, and the other records keep their values and order.
  On a registry with no record of that id it answers 404 and leaves the registry as it
  was.
\<close>

theorem deleteAlbum_removes_first_match:
  "((\<forall>b\<in>set pre. ID b \<noteq> id') \<and> ID a = id' \<longrightarrow>
      deleteAlbum id' (pre @ a # post) =
        (IndentedJSON StatusOK (H [(''message'', ''album deleted'')]), pre @ post)
      \<and> Suc (length (snd (deleteAlbum id' (pre @ a # post)))) = length (pre @ a # post))
   \<and> ((\<forall>b\<in>set as. ID b \<noteq> id') \<longrightarrow>
      deleteAlbum id' as =
        (IndentedJSON StatusNotFound (H [(''message'', ''album not found'')]), as))"
  by (simp add: deleteAlbum_first deleteAlbum_none)

theorem deleteAlbum_removes_first_match_witness:
  "deleteAlbum ''2''
     ([\<lparr>ID = ''1'', Title = ''Blue Train'', Artist = ''John Coltrane'', Price = 0x404C7EB851EB851F\<rparr>]
      @ \<lparr>ID = ''2'', Title = ''Jeru'', Artist = ''Gerry Mulligan'', Price = 0x4031FD70A3D70A3D\<rparr>
      # [\<lparr>ID = ''3'', Title = ''Sarah Vaughan and Clifford Brown'', Artist = ''Sarah Vaughan'',
           Price = 0x4043FEB851EB851F\<rparr>])
   = (IndentedJSON StatusOK (H [(''message'', ''album deleted'')]),
      [\<lparr>ID = ''1'', Title = ''Blue Train'', Artist = ''John Coltrane'', Price = 0x404C7EB851EB851F\<rparr>,
       \<lparr>ID = ''3'', Title = ''Sarah Vaughan and Clifford Brown'', Artist = ''Sarah Vaughan'',
           Price = 0x4043FEB851EB851F\<rparr>])
   \<and> deleteAlbum ''nonexistent'' albums =
       (IndentedJSON StatusNotFound (H [(''message'', ''album not found'')]), albums)"
  using deleteAlbum_removes_first_match
          [of "[\<lparr>ID = ''1'', Title = ''Blue Train'', Artist = ''John Coltrane'', Price = 0x404C7EB851EB851F\<rparr>]"
              "''2''"
              "\<lparr>ID = ''2'', Title = ''Jeru'', Artist = ''Gerry Mulligan'', Price = 0x4031FD70A3D70A3D\<rparr>"
              "[\<lparr>ID = ''3'', Title = ''Sarah Vaughan and Clifford Brown'', Artist = ''Sarah Vaughan'',
                 Price = 0x4043FEB851EB851F\<rparr>]"
              "[]"]
        deleteAlbum_removes_first_match
          [of "[]" "''nonexistent''" "\<lparr>ID = '''', Title = '''', Artist = '''', Price = 0\<rparr>" "[]" albums]
  by (simp add: albums_def)

subsection \<open>Updating\<close>

text \<open>
  C5. On a registry \<open>pre @ a # post\<close> whose first record with the requested id is \<open>a\<close>,
  \<^verbatim>\<open>updateAlbum\<close> with payload \<open>u\<close> stores in place of \<open>a\<close> the record \<open>a\<close> with its
  title replaced when the title of \<open>u\<close> is not empty, its artist replaced when the
  artist of \<open>u\<close> is not empty, and its price replaced when the price of \<open>u\<close> is not
  zero; each field on its own, the id never. In particular a payload whose price is
  zero (either zero of \<^verbatim>\<open>float64\<close>) leaves the stored price unchanged. With no record of
  that id the answer is 404 and the registry is left as it was.
\<close>

theorem updateAlbum_merges_fields:
  "((\<forall>b\<in>set pre. ID b \<noteq> id') \<and> ID a = id' \<longrightarrow>
      snd (updateAlbum id' (Some u) (pre @ a # post)) =
        pre @ a\<lparr>Title := if Title u \<noteq> '''' then Title u else Title a,
                 Artist := if Artist u \<noteq> '''' then Artist u else Artist a,
                 Price := if f64_eq (Price u) 0 then Price a else Price u\<rparr> # post)
   \<and> ((\<forall>b\<in>set pre. ID b \<noteq> id') \<and> ID a = id' \<and>
        (Price u = 0 \<or> Price u = 0x8000000000000000) \<longrightarrow>
      Price (snd (updateAlbum id' (Some u) (pre @ a # post)) ! length pre) = Price a)
   \<and> ((\<forall>b\<in>set as. ID b \<noteq> id') \<longrightarrow>
      updateAlbum id' (Some u) as =
        (IndentedJSON StatusNotFound (H [(''message'', ''album not found'')]), as))"
proof (intro conjI impI)
  assume "(\<forall>b\<in>set pre. ID b \<noteq> id') \<and> ID a = id'"
  then show "snd (updateAlbum id' (Some u) (pre @ a # post)) =
        pre @ a\<lparr>Title := if Title u \<noteq> '''' then Title u else Title a,
                 Artist := if Artist u \<noteq> '''' then Artist u else Artist a,
                 Price := if f64_eq (Price u) 0 then Price a else Price u\<rparr> # post"
    by (simp add: updateAlbum_first)
next
  assume h: "(\<forall>b\<in>set pre. ID b \<noteq> id') \<and> ID a = id' \<and>
        (Price u = 0 \<or> Price u = 0x8000000000000000)"
  then have "f64_eq (Price u) 0" by (simp only: f64_eq_zero)
  with h show "Price (snd (updateAlbum id' (Some u) (pre @ a # post)) ! length pre) = Price a"
    by (simp add: updateAlbum_first)
next
  assume "\<forall>b\<in>set as. ID b \<noteq> id'"
  then show "updateAlbum id' (Some u) as =
        (IndentedJSON StatusNotFound (H [(''message'', ''album not found'')]), as)"
    by (rule updateAlbum_none)
qed

theorem updateAlbum_merges_fields_witness:
  "snd (updateAlbum ''2'' (Some \<lparr>ID = ''9'', Title = ''Night Lights'', Artist = '''', Price = 0\<rparr>)
     ([\<lparr>ID = ''1'', Title = ''Blue Train'', Artist = ''John Coltrane'', Price = 0x404C7EB851EB851F\<rparr>]
      @ \<lparr>ID = ''2'', Title = ''Jeru'', Artist = ''Gerry Mulligan'', Price = 0x4031FD70A3D70A3D\<rparr>
      # [\<lparr>ID = ''3'', Title = ''Sarah Vaughan and Clifford Brown'', Artist = ''Sarah Vaughan'',
           Price = 0x4043FEB851EB851F\<rparr>]))
   = [\<lparr>ID = ''1'', Title = ''Blue Train'', Artist = ''John Coltrane'', Price = 0x404C7EB851EB851F\<rparr>,
      \<lparr>ID = ''2'', Title = ''Night Lights'', Artist = ''Gerry Mulligan'', Price = 0x4031FD70A3D70A3D\<rparr>,
      \<lparr>ID = ''3'', Title = ''Sarah Vaughan and Clifford Brown'', Artist = ''Sarah Vaughan'',
           Price = 0x4043FEB851EB851F\<rparr>]
   \<and> updateAlbum ''nonexistent''
         (Some \<lparr>ID = ''9'', Title = ''Night Lights'', Artist = '''', Price = 0\<rparr>) albums =
       (IndentedJSON StatusNotFound (H [(''message'', ''album not found'')]), albums)"
  using updateAlbum_merges_fields
          [of "[\<lparr>ID = ''1'', Title = ''Blue Train'', Artist = ''John Coltrane'', Price = 0x404C7EB851EB851F\<rparr>]"
              "''2''"
              "\<lparr>ID = ''2'', Title = ''Jeru'', Artist = ''Gerry Mulligan'', Price = 0x4031FD70A3D70A3D\<rparr>"
              "\<lparr>ID = ''9'', Title = ''Night Lights'', Artist = '''', Price = 0\<rparr>"
              "[\<lparr>ID = ''3'', Title = ''Sarah Vaughan and Clifford Brown'', Artist = ''Sarah Vaughan'',
                 Price = 0x4043FEB851EB851F\<rparr>]"
              "[]"]
        updateAlbum_merges_fields
          [of "[]" "''nonexistent''" "\<lparr>ID = '''', Title = '''', Artist = '''', Price = 0\<rparr>"
              "\<lparr>ID = ''9'', Title = ''Night Lights'', Artist = '''', Price = 0\<rparr>" "[]" albums]
  by (simp add: albums_def f64_eq_def f64_isNaN_def)

text \<open>
  C6. Whenever some stored record has the requested id, \<^verbatim>\<open>updateAlbum\<close> answers 200
  with the payload \<open>u\<close> as it was received, not with the merged record it stored.
\<close>

theorem updateAlbum_echoes_payload:
  "\<exists>b\<in>set as. ID b = id' \<Longrightarrow>
   fst (updateAlbum id' (Some u) as) = IndentedJSON StatusOK (JAlbum u)"
proof -
  assume "\<exists>b\<in>set as. ID b = id'"
  then obtain pre a post
    where "as = pre @ a # post" "\<forall>b\<in>set pre. ID b \<noteq> id'" "ID a = id'"
    using first_match_split by blast
  then show ?thesis by (simp add: updateAlbum_first)
qed

text \<open>On the seeded registry, a payload that carries only a title is echoed as it is,
  while the record stored at index 1 keeps its id, artist and price.\<close>

theorem updateAlbum_echoes_payload_witness:
  "fst (updateAlbum ''2'' (Some \<lparr>ID = '''', Title = ''Night Lights'', Artist = '''', Price = 0\<rparr>)
          albums) =
     IndentedJSON StatusOK
       (JAlbum \<lparr>ID = '''', Title = ''Night Lights'', Artist = '''', Price = 0\<rparr>)
   \<and> snd (updateAlbum ''2'' (Some \<lparr>ID = '''', Title = ''Night Lights'', Artist = '''', Price = 0\<rparr>)
          albums) ! 1 =
     \<lparr>ID = ''2'', Title = ''Night Lights'', Artist = ''Gerry Mulligan'',
      Price = 0x4031FD70A3D70A3D\<rparr>"
proof -
  have m: "\<exists>b\<in>set albums. ID b = ''2''" by (simp add: albums_def)
  have "snd (updateAlbum ''2''
          (Some \<lparr>ID = '''', Title = ''Night Lights'', Artist = '''', Price = 0\<rparr>) albums) ! 1 =
     \<lparr>ID = ''2'', Title = ''Night Lights'', Artist = ''Gerry Mulligan'',
      Price = 0x4031FD70A3D70A3D\<rparr>"
    by (simp add: updateAlbum_def albums_def f64_eq_def f64_isNaN_def)
  with updateAlbum_echoes_payload [OF m] show ?thesis by simp
qed

text \<open>
  C7. On a registry \<open>pre @ a # post\<close> whose first record with the requested id is \<open>a\<close>,
  \<^verbatim>\<open>overwriteAlbum\<close> with payload \<open>u\<close> answers 200 with \<open>u\<close> and leaves
  \<open>pre @ u # post\<close>: the whole record at that position is replaced by \<open>u\<close>, whose id is
  stored as it is, equal to the path id or not. With no record of that id the answer is
  404 and the registry is left as it was.
\<close>

theorem overwriteAlbum_replaces_first_match:
  "((\<forall>b\<in>set pre. ID b \<noteq> id') \<and> ID a = id' \<longrightarrow>
      overwriteAlbum id' (Some u) (pre @ a # post) =
        (IndentedJSON StatusOK (JAlbum u), pre @ u # post)
      \<and> ID (snd (overwriteAlbum id' (Some u) (pre @ a # post)) ! length pre) = ID u)
   \<and> ((\<forall>b\<in>set as. ID b \<noteq> id') \<longrightarrow>
      overwriteAlbum id' (Some u) as =
        (IndentedJSON StatusNotFound (H [(''message'', ''album not found'')]), as))"
  by (simp add: overwriteAlbum_first overwriteAlbum_none)

theorem overwriteAlbum_replaces_first_match_witness:
  "overwriteAlbum ''2'' (Some \<lparr>ID = ''7'', Title = ''Night Lights'', Artist = ''Gerry Mulligan'', Price = 0\<rparr>)
     ([\<lparr>ID = ''1'', Title = ''Blue Train'', Artist = ''John Coltrane'', Price = 0x404C7EB851EB851F\<rparr>]
      @ \<lparr>ID = ''2'', Title = ''Jeru'', Artist = ''Gerry Mulligan'', Price = 0x4031FD70A3D70A3D\<rparr>
      # [\<lparr>ID = ''3'', Title = ''Sarah Vaughan and Clifford Brown'', Artist = ''Sarah Vaughan'',
           Price = 0x4043FEB851EB851F\<rparr>])
   = (IndentedJSON StatusOK
        (JAlbum \<lparr>ID = ''7'', Title = ''Night Lights'', Artist = ''Gerry Mulligan'', Price = 0\<rparr>),
      [\<lparr>ID = ''1'', Title = ''Blue Train'', Artist = ''John Coltrane'', Price = 0x404C7EB851EB851F\<rparr>,
       \<lparr>ID = ''7'', Title = ''Night Lights'', Artist = ''Gerry Mulligan'', Price = 0\<rparr>,
       \<lparr>ID = ''3'', Title = ''Sarah Vaughan and Clifford Brown'', Artist = ''Sarah Vaughan'',
           Price = 0x4043FEB851EB851F\<rparr>])
   \<and> overwriteAlbum ''nonexistent''
         (Some \<lparr>ID = ''7'', Title = ''Night Lights'', Artist = ''Gerry Mulligan'', Price = 0\<rparr>) albums =
       (IndentedJSON StatusNotFound (H [(''message'', ''album not found'')]), albums)"
  using overwriteAlbum_replaces_first_match
          [of "[\<lparr>ID = ''1'', Title = ''Blue Train'', Artist = ''John Coltrane'', Price = 0x404C7EB851EB851F\<rparr>]"
              "''2''"
              "\<lparr>ID = ''2'', Title = ''Jeru'', Artist = ''Gerry Mulligan'', Price = 0x4031FD70A3D70A3D\<rparr>"
              "\<lparr>ID = ''7'', Title = ''Night Lights'', Artist = ''Gerry Mulligan'', Price = 0\<rparr>"
              "[\<lparr>ID = ''3'', Title = ''Sarah Vaughan and Clifford Brown'', Artist = ''Sarah Vaughan'',
                 Price = 0x4043FEB851EB851F\<rparr>]"
              "[]"]
        overwriteAlbum_replaces_first_match
          [of "[]" "''nonexistent''" "\<lparr>ID = '''', Title = '''', Artist = '''', Price = 0\<rparr>"
              "\<lparr>ID = ''7'', Title = ''Night Lights'', Artist = ''Gerry Mulligan'', Price = 0\<rparr>" "[]" albums]
  by (simp add: albums_def)

subsection \<open>Frame\<close>

text \<open>
  C9. Let \<open>a\<close> at index \<open>length pre\<close> be the first record with the requested id; \<open>post\<close>
  is arbitrary and may hold more records with that id. Then \<^verbatim>\<open>overwriteAlbum\<close> and
  \<^verbatim>\<open>updateAlbum\<close> keep the length and every record at every other index, and
  \<^verbatim>\<open>deleteAlbum\<close> shortens the registry by one, keeps the records before the index
  where they were and moves each record after it one index down, unchanged.
\<close>

theorem only_first_match_affected:
  assumes "\<forall>b\<in>set pre. ID b \<noteq> id'" and "ID a = id'"
  shows
    "length (snd (overwriteAlbum id' (Some u) (pre @ a # post))) = length (pre @ a # post)
   \<and> (\<forall>j < length (pre @ a # post). j \<noteq> length pre \<longrightarrow>
         snd (overwriteAlbum id' (Some u) (pre @ a # post)) ! j = (pre @ a # post) ! j)
   \<and> length (snd (updateAlbum id' (Some u) (pre @ a # post))) = length (pre @ a # post)
   \<and> (\<forall>j < length (pre @ a # post). j \<noteq> length pre \<longrightarrow>
         snd (updateAlbum id' (Some u) (pre @ a # post)) ! j = (pre @ a # post) ! j)
   \<and> Suc (length (snd (deleteAlbum id' (pre @ a # post)))) = length (pre @ a # post)
   \<and> (\<forall>j < length pre.
         snd (deleteAlbum id' (pre @ a # post)) ! j = (pre @ a # post) ! j)
   \<and> (\<forall>j. length pre \<le> j \<and> j < length (snd (deleteAlbum id' (pre @ a # post))) \<longrightarrow>
         snd (deleteAlbum id' (pre @ a # post)) ! j = (pre @ a # post) ! Suc j)"
proof -
  from assms have put: "snd (overwriteAlbum id' (Some u) (pre @ a # post)) = pre @ u # post"
    by (simp add: overwriteAlbum_first)
  from assms obtain m
    where patch: "snd (updateAlbum id' (Some u) (pre @ a # post)) = pre @ m # post"
    by (simp add: updateAlbum_first)
  from assms have del: "snd (deleteAlbum id' (pre @ a # post)) = pre @ post"
    by (simp add: deleteAlbum_first)
  show ?thesis
    unfolding put patch del
  proof (intro conjI allI impI)
    fix j assume "j < length (pre @ a # post)" "j \<noteq> length pre"
    then show "(pre @ u # post) ! j = (pre @ a # post) ! j" by (rule nth_replace_middle)
  next
    fix j assume "j < length (pre @ a # post)" "j \<noteq> length pre"
    then show "(pre @ m # post) ! j = (pre @ a # post) ! j" by (rule nth_replace_middle)
  next
    fix j assume "j < length pre"
    then show "(pre @ post) ! j = (pre @ a # post) ! j" by (rule nth_remove_middle_before)
  next
    fix j assume "length pre \<le> j \<and> j < length (pre @ post)"
    then show "(pre @ post) ! j = (pre @ a # post) ! Suc j"
      by (simp add: nth_remove_middle_after)
  qed simp_all
qed

theorem only_first_match_affected_witness:
  "snd (overwriteAlbum ''2'' (Some \<lparr>ID = ''2'', Title = ''Night Lights'', Artist = ''G. M.'', Price = 0\<rparr>)
     ([\<lparr>ID = ''1'', Title = ''Blue Train'', Artist = ''John Coltrane'', Price = 0x404C7EB851EB851F\<rparr>]
      @ \<lparr>ID = ''2'', Title = ''Jeru'', Artist = ''Gerry Mulligan'', Price = 0x4031FD70A3D70A3D\<rparr>
      # [\<lparr>ID = ''2'', Title = ''Jeru (reissue)'', Artist = ''Gerry Mulligan'', Price = 0x4043FEB851EB851F\<rparr>])) ! 2
     = \<lparr>ID = ''2'', Title = ''Jeru (reissue)'', Artist = ''Gerry Mulligan'', Price = 0x4043FEB851EB851F\<rparr>
   \<and> snd (updateAlbum ''2'' (Some \<lparr>ID = ''2'', Title = ''Night Lights'', Artist = ''G. M.'', Price = 0\<rparr>)
     ([\<lparr>ID = ''1'', Title = ''Blue Train'', Artist = ''John Coltrane'', Price = 0x404C7EB851EB851F\<rparr>]
      @ \<lparr>ID = ''2'', Title = ''Jeru'', Artist = ''Gerry Mulligan'', Price = 0x4031FD70A3D70A3D\<rparr>
      # [\<lparr>ID = ''2'', Title = ''Jeru (reissue)'', Artist = ''Gerry Mulligan'', Price = 0x4043FEB851EB851F\<rparr>])) ! 2
     = \<lparr>ID = ''2'', Title = ''Jeru (reissue)'', Artist = ''Gerry Mulligan'', Price = 0x4043FEB851EB851F\<rparr>
   \<and> snd (deleteAlbum ''2''
     ([\<lparr>ID = ''1'', Title = ''Blue Train'', Artist = ''John Coltrane'', Price = 0x404C7EB851EB851F\<rparr>]
      @ \<lparr>ID = ''2'', Title = ''Jeru'', Artist = ''Gerry Mulligan'', Price = 0x4031FD70A3D70A3D\<rparr>
      # [\<lparr>ID = ''2'', Title = ''Jeru (reissue)'', Artist = ''Gerry Mulligan'', Price = 0x4043FEB851EB851F\<rparr>])) ! 1
     = \<lparr>ID = ''2'', Title = ''Jeru (reissue)'', Artist = ''Gerry Mulligan'', Price = 0x4043FEB851EB851F\<rparr>"
proof -
  let ?pre = "[\<lparr>ID = ''1'', Title = ''Blue Train'', Artist = ''John Coltrane'', Price = 0x404C7EB851EB851F\<rparr>]"
  let ?a = "\<lparr>ID = ''2'', Title = ''Jeru'', Artist = ''Gerry Mulligan'', Price = 0x4031FD70A3D70A3D\<rparr>"
  let ?post = "[\<lparr>ID = ''2'', Title = ''Jeru (reissue)'', Artist = ''Gerry Mulligan'', Price = 0x4043FEB851EB851F\<rparr>]"
  let ?u = "\<lparr>ID = ''2'', Title = ''Night Lights'', Artist = ''G. M.'', Price = 0\<rparr>"
  have h1: "\<forall>b\<in>set ?pre. ID b \<noteq> ''2''" by simp
  have h2: "ID ?a = ''2''" by simp
  note t = only_first_match_affected [OF h1 h2, of ?u ?post]
  note put = t [THEN conjunct2, THEN conjunct1, THEN spec, of 2]
  note patch = t [THEN conjunct2, THEN conjunct2, THEN conjunct2, THEN conjunct1, THEN spec, of 2]
  note del = t [THEN conjunct2, THEN conjunct2, THEN conjunct2, THEN conjunct2, THEN conjunct2,
                THEN conjunct2, THEN spec, of 1]
  have len: "length (snd (deleteAlbum ''2'' (?pre @ ?a # ?post))) = 2"
    using t [THEN conjunct2, THEN conjunct2, THEN conjunct2, THEN conjunct2, THEN conjunct1]
    by simp
  have "snd (overwriteAlbum ''2'' (Some ?u) (?pre @ ?a # ?post)) ! 2 = (?pre @ ?a # ?post) ! 2"
    using put by simp
  moreover
  have "snd (updateAlbum ''2'' (Some ?u) (?pre @ ?a # ?post)) ! 2 = (?pre @ ?a # ?post) ! 2"
    using patch by simp
  moreover
  have "snd (deleteAlbum ''2'' (?pre @ ?a # ?post)) ! 1 = (?pre @ ?a # ?post) ! Suc 1"
    using del len by simp
  ultimately show ?thesis by simp
qed

text \<open>
  C10. When no stored record has the requested id, \<^verbatim>\<open>overwriteAlbum\<close> and
  \<^verbatim>\<open>updateAlbum\<close> leave the whole registry as it was: nothing is modified, added or
  removed.
\<close>

theorem not_found_leaves_registry:
  "\<forall>b\<in>set as. ID b \<noteq> id' \<Longrightarrow>
   snd (overwriteAlbum id' (Some u) as) = as \<and> snd (updateAlbum id' (Some u) as) = as"
  by (simp add: overwriteAlbum_none updateAlbum_none)

theorem not_found_leaves_registry_witness:
  "snd (overwriteAlbum ''nonexistent''
          (Some \<lparr>ID = ''7'', Title = ''Night Lights'', Artist = ''Gerry Mulligan'',
                  Price = 0x4031FD70A3D70A3D\<rparr>) albums) = albums
   \<and> snd (updateAlbum ''nonexistent''
          (Some \<lparr>ID = ''7'', Title = ''Night Lights'', Artist = ''Gerry Mulligan'',
                  Price = 0x4031FD70A3D70A3D\<rparr>) albums) = albums"
proof -
  have none: "\<forall>b\<in>set albums. ID b \<noteq> ''nonexistent''" by (simp add: albums_def)
  show ?thesis by (rule not_found_leaves_registry [OF none])
qed

end
